theory Spec2Isabelle
  imports Main
begin

section \<open>Element trees\<close>

text \<open>
  The program keeps no document of its own: every handler parses the Preferences file
  with \<^verbatim>\<open>xml.etree.ElementTree\<close>, changes the parsed tree through a reference that
  \<^verbatim>\<open>find\<close> returned, and writes the tree back. An element has a tag, an attribute
  dictionary (insertion ordered), the text before its first child, the tail after its end
  tag, and its children. Text and tail are \<^verbatim>\<open>None\<close> when absent. Python strings are
  modelled as lists of characters.
\<close>

datatype element =
  Element (tag: string) (attrib: "(string \<times> string) list")
          (etext: "string option") (etail: "string option") (children: "element list")

text \<open>The Python exceptions the handlers can raise.\<close>

datatype exn =
    TypeError
  | IndexError
  | ValueError
  | AttributeError
  | OptionDoesNotExist
  | XPathOther

text \<open>\<^verbatim>\<open>elem.get(key)\<close>: the attribute, or \<^verbatim>\<open>None\<close>.\<close>

definition get_attr :: "element \<Rightarrow> string \<Rightarrow> string option" where
  "get_attr e k = map_of (attrib e) k"

text \<open>\<^verbatim>\<open>elem.iter()\<close>: the element and all its descendants, in document order.\<close>

fun iter :: "element \<Rightarrow> element list" where
  "iter (Element t a x y cs) = Element t a x y cs # concat (map iter cs)"

text \<open>
  The step \<^verbatim>\<open>.//tag\<close> of a path selects the elements of \<^verbatim>\<open>elem.iter(tag)\<close> other than
  \<^verbatim>\<open>elem\<close> itself: every proper descendant with that tag, at any depth.
\<close>

definition descendants :: "element \<Rightarrow> element list" where
  "descendants e = concat (map iter (children e))"

text \<open>
  A reference to an element inside a parsed tree is the list of child indices leading to
  it. \<open>get_at\<close> follows a reference, \<open>update_at\<close> is a mutation through it.
\<close>

fun get_at :: "element \<Rightarrow> nat list \<Rightarrow> element option" where
  "get_at e [] = Some e"
| "get_at e (i # p) =
     (if i < length (children e) then get_at (children e ! i) p else None)"

fun update_at :: "nat list \<Rightarrow> (element \<Rightarrow> element) \<Rightarrow> element \<Rightarrow> element" where
  "update_at [] f e = f e"
| "update_at (i # p) f e =
     Element (tag e) (attrib e) (etext e) (etail e)
       ((children e)[i := update_at p f (children e ! i)])"

text \<open>
  The first element satisfying \<open>P\<close> among a list of siblings and their descendants, in
  document order, as a reference relative to the parent of the siblings.
\<close>

fun find_forest :: "(element \<Rightarrow> bool) \<Rightarrow> element list \<Rightarrow> nat list option" where
  "find_forest P [] = None"
| "find_forest P (Element t a x y ks # cs) =
     (if P (Element t a x y ks) then Some [0]
      else case find_forest P ks of
             Some p \<Rightarrow> Some (0 # p)
           | None \<Rightarrow>
               (case find_forest P cs of
                  Some (i # p) \<Rightarrow> Some (Suc i # p)
                | _ \<Rightarrow> None))"

text \<open>The index of the first element of a list satisfying \<open>P\<close>.\<close>

fun first_index :: "('a \<Rightarrow> bool) \<Rightarrow> 'a list \<Rightarrow> nat option" where
  "first_index P [] = None"
| "first_index P (x # xs) =
     (if P x then Some 0 else map_option Suc (first_index P xs))"

text \<open>\<^verbatim>\<open>elem.find("tag")\<close>: the first child with that tag.\<close>

definition find_child :: "string \<Rightarrow> element \<Rightarrow> nat option" where
  "find_child t e = first_index (\<lambda>c. tag c = t) (children e)"

text \<open>\<^verbatim>\<open>elem.findall("./tag")\<close>: the children with that tag, in order.\<close>

definition findall_child :: "string \<Rightarrow> element \<Rightarrow> element list" where
  "findall_child t e = filter (\<lambda>c. tag c = t) (children e)"

text \<open>\<^verbatim>\<open>elem.findall(".//tag")\<close>.\<close>

definition findall_descendant :: "string \<Rightarrow> element \<Rightarrow> element list" where
  "findall_descendant t e = filter (\<lambda>c. tag c = t) (descendants e)"

text \<open>
  The predicate of \<^verbatim>\<open>.//color-palette[@name="N"]\<close>: the tag, and the attribute
  \<^verbatim>\<open>name\<close> equal to \<open>N\<close>.
\<close>

definition is_palette_named :: "string \<Rightarrow> element \<Rightarrow> bool" where
  "is_palette_named n e \<longleftrightarrow> tag e = ''color-palette'' \<and> get_attr e ''name'' = Some n"

text \<open>
  \<^verbatim>\<open>elem.find(f'.//color-palette[@name="{n}"]')\<close>. The name is pasted into the path
  between double quotes, so a name that itself contains a double quote makes a different
  path expression (ElementPath rejects most of them as an invalid predicate). The model
  stops with \<open>XPathOther\<close> there and says nothing more about such names.
\<close>

definition find_palette :: "string \<Rightarrow> element \<Rightarrow> exn + nat list option" where
  "find_palette n e =
     (if CHR 0x22 \<in> set n then Inl XPathOther
      else Inr (find_forest (is_palette_named n) (children e)))"

text \<open>\<^verbatim>\<open>parent.append(x)\<close> and the removal of the child at a known position.\<close>

definition append_child :: "element \<Rightarrow> element \<Rightarrow> element" where
  "append_child x e = Element (tag e) (attrib e) (etext e) (etail e) (children e @ [x])"

definition drop_nth :: "nat \<Rightarrow> 'a list \<Rightarrow> 'a list" where
  "drop_nth i xs = take i xs @ drop (Suc i) xs"

definition remove_child :: "nat \<Rightarrow> element \<Rightarrow> element" where
  "remove_child i e = Element (tag e) (attrib e) (etext e) (etail e) (drop_nth i (children e))"

section \<open>The Preferences file\<close>

text \<open>
  The file is modelled by three things: the encoding its XML declaration names (\<open>None\<close>
  when it has no declaration or the declaration names none), the comments and processing
  instructions it holds, and the tree of its root element. Every handler opens the file
  as UTF-8 text, and the parser fed with text does not look at the declared encoding; it
  skips comments and processing instructions, so that the tree is all it returns.
  \<^verbatim>\<open>tree.write\<close> is called with \<^verbatim>\<open>encoding="utf-8", xml_declaration=True\<close> everywhere
  and writes the declaration and the tree. Quoting, entity references and the other
  lexical choices of the serialiser are not modelled. Each opening and each writing of
  the file is recorded in the state, in the order of the program. The model starts where
  the path of the file is known and the file is well-formed: opening and parsing succeed.
\<close>

record tps_file =
  declared_encoding :: "string option"
  skipped :: "string list"
  getroot :: element

datatype io_event = FileRead | FileWrite

definition parse :: "tps_file \<Rightarrow> element" where
  "parse f = getroot f"

definition tree_write :: "element \<Rightarrow> string \<Rightarrow> bool \<Rightarrow> tps_file" where
  "tree_write t encoding xml_declaration =
     \<lparr>declared_encoding = (if xml_declaration then Some encoding else None),
      skipped = [],
      getroot = t\<rparr>"

section \<open>The application state\<close>

text \<open>
  An \<^verbatim>\<open>OptionList\<close> widget holds its options (separators are not options and have no
  index) and the index of the highlighted one, \<^verbatim>\<open>None\<close> when nothing is highlighted.
  The prompt of an option is the value it was built from, which is \<^verbatim>\<open>None\<close> for a
  missing attribute or an empty element.
\<close>

record option_entry =
  prompt :: "string option"
  disabled :: bool

record option_list =
  options :: "option_entry list"
  highlighted :: "nat option"

text \<open>An entry of \<^verbatim>\<open>existing_palettes\<close>: the dictionary with keys name, type, colours.\<close>

record palette =
  pal_name :: "string option"
  pal_type :: "string option"
  pal_colours :: "string option list"

record app =
  preferences_file :: tps_file
  existing_palettes :: "palette list"
  w_existing_palettes :: option_list
  w_existing_colours :: option_list
  w_colour_palettes_viz :: "string option list"
  w_add_code :: string
  add_palette_screen :: bool
  io_log :: "io_event list"

definition PALETTE_TYPES :: "(string \<times> string) list" where
  "PALETTE_TYPES =
     [(''regular'', ''Categorical''),
      (''ordered-sequential'', ''Sequential''),
      (''ordered-diverging'', ''Diverging'')]"

text \<open>\<^verbatim>\<open>PALETTE_TYPES.get(k)\<close>, where \<open>k\<close> may be \<^verbatim>\<open>None\<close>.\<close>

definition PALETTE_TYPES_get :: "string option \<Rightarrow> string option" where
  "PALETTE_TYPES_get k = (case k of None \<Rightarrow> None | Some c \<Rightarrow> map_of PALETTE_TYPES c)"

text \<open>\<^verbatim>\<open>HEX_VALIDATION_REGEX\<close> under \<^verbatim>\<open>fullmatch\<close>: an optional \<^verbatim>\<open>#\<close>, then six hex digits.\<close>

definition hex_digit :: "char \<Rightarrow> bool" where
  "hex_digit c \<longleftrightarrow> c \<in> set ''0123456789abcdefABCDEF''"

definition HEX_VALIDATION :: "string \<Rightarrow> bool" where
  "HEX_VALIDATION h =
     (case h of
        [] \<Rightarrow> False
      | c # r \<Rightarrow>
          if c = CHR ''#'' then length r = 6 \<and> list_all hex_digit r
          else length h = 6 \<and> list_all hex_digit h)"

text \<open>What an f-string makes of a value that may be \<^verbatim>\<open>None\<close>.\<close>

definition py_str :: "string option \<Rightarrow> string" where
  "py_str v = (case v of None \<Rightarrow> ''None'' | Some s \<Rightarrow> s)"

subsection \<open>Widgets\<close>

text \<open>
  Of the toolkit the model keeps what the handlers rely on: \<^verbatim>\<open>clear_options\<close> removes the
  options and the highlight, \<^verbatim>\<open>add_options\<close> appends options and leaves the highlight as
  it is.
\<close>

definition clear_options :: "option_list \<Rightarrow> option_list" where
  "clear_options ol = \<lparr>options = [], highlighted = None\<rparr>"

definition add_options :: "option_entry list \<Rightarrow> option_list \<Rightarrow> option_list" where
  "add_options xs ol = ol\<lparr>options := options ol @ xs\<rparr>"

text \<open>
  \<^verbatim>\<open>get_option_at_index\<close> indexes the list of options: indexing with \<^verbatim>\<open>None\<close> is a
  \<^verbatim>\<open>TypeError\<close>, an index out of range is turned into \<^verbatim>\<open>OptionDoesNotExist\<close>.
\<close>

definition get_option_at_index :: "option_list \<Rightarrow> nat option \<Rightarrow> exn + option_entry" where
  "get_option_at_index ol idx =
     (case idx of
        None \<Rightarrow> Inl TypeError
      | Some i \<Rightarrow> if i < length (options ol) then Inr (options ol ! i) else Inl OptionDoesNotExist)"

definition Option :: "string option \<Rightarrow> bool \<Rightarrow> option_entry" where
  "Option p d = \<lparr>prompt = p, disabled = d\<rparr>"

subsection \<open>Running a handler\<close>

text \<open>
  A handler returns the exception it raised, if any, and the state as it was left: what
  was written before a raise stays written. \<open>then_do\<close> is the sequencing of two
  statements.
\<close>

type_synonym run = "exn option \<times> app"

definition then_do :: "run \<Rightarrow> (app \<Rightarrow> run) \<Rightarrow> run" where
  "then_do r f = (case r of (None, s) \<Rightarrow> f s | (Some e, s) \<Rightarrow> (Some e, s))"

definition open_read :: "app \<Rightarrow> element \<times> app" where
  "open_read s = (parse (preferences_file s), s\<lparr>io_log := io_log s @ [FileRead]\<rparr>)"

definition write_tree :: "element \<Rightarrow> app \<Rightarrow> app" where
  "write_tree t s =
     s\<lparr>preferences_file := tree_write t ''utf-8'' True, io_log := io_log s @ [FileWrite]\<rparr>"

section \<open>Reading the palettes\<close>

definition palette_of :: "element \<Rightarrow> palette" where
  "palette_of e =
     \<lparr>pal_name = get_attr e ''name'',
      pal_type = get_attr e ''type'',
      pal_colours = map etext (findall_child ''color'' e)\<rparr>"

text \<open>The loop of \<^verbatim>\<open>get_existing_palettes\<close> over a parsed tree.\<close>

definition palettes_in :: "element \<Rightarrow> palette list" where
  "palettes_in t = map palette_of (findall_descendant ''color-palette'' t)"

definition get_existing_palettes :: "app \<Rightarrow> palette list \<times> app" where
  "get_existing_palettes s = (case open_read s of (t, s1) \<Rightarrow> (palettes_in t, s1))"

text \<open>The statement \<^verbatim>\<open>self.existing_palettes = self.get_existing_palettes()\<close>.\<close>

definition reload :: "app \<Rightarrow> app" where
  "reload s = (case get_existing_palettes s of (ps, s1) \<Rightarrow> s1\<lparr>existing_palettes := ps\<rparr>)"

text \<open>The palette of the cache that a list comprehension followed by \<^verbatim>\<open>[0]\<close> picks.\<close>

definition cached :: "string option \<Rightarrow> app \<Rightarrow> palette list" where
  "cached n s = filter (\<lambda>p. pal_name p = n) (existing_palettes s)"

section \<open>Refreshing the panes\<close>

text \<open>
  The prompt of the highlighted option of the palette list, as each handler reads it:
  \<^verbatim>\<open>query_one("#existing_palettes").get_option_at_index(...highlighted).prompt\<close>.
\<close>

definition highlighted_prompt :: "option_list \<Rightarrow> exn + string option" where
  "highlighted_prompt ol =
     (case get_option_at_index ol (highlighted ol) of
        Inl e \<Rightarrow> Inl e
      | Inr opt \<Rightarrow> Inr (prompt opt))"

definition refresh_palette_colours :: "app \<Rightarrow> run" where
  "refresh_palette_colours s =
     (case highlighted_prompt (w_existing_palettes s) of
        Inl e \<Rightarrow> (Some e, s)
      | Inr selected_option \<Rightarrow>
          (case cached selected_option s of
             [] \<Rightarrow> (Some IndexError, s)
           | p # _ \<Rightarrow>
               (None,
                s\<lparr>w_existing_colours :=
                    add_options (map (\<lambda>colour. Option colour False) (pal_colours p))
                      (clear_options (w_existing_colours s))\<rparr>)))"

text \<open>
  \<^verbatim>\<open>refresh_palettes\<close> reloads the cache and rebuilds the palette list: for each palette
  an option with its name and a disabled option with the label of its type (and a
  separator, which is no option).
\<close>

definition palette_options :: "palette list \<Rightarrow> option_entry list" where
  "palette_options ps =
     concat (map (\<lambda>p. [Option (pal_name p) False,
                         Option (PALETTE_TYPES_get (pal_type p)) True]) ps)"

definition refresh_palettes :: "app \<Rightarrow> app" where
  "refresh_palettes s =
     (let s1 = reload s
      in s1\<lparr>w_existing_palettes :=
             add_options (palette_options (existing_palettes s1))
               (clear_options (w_existing_palettes s1))\<rparr>)"

text \<open>
  \<^verbatim>\<open>refresh_visualisation\<close> empties the pane and mounts one label per colour of the
  highlighted palette; a \<^verbatim>\<open>TypeError\<close> (nothing highlighted) is caught and leaves the
  pane empty. The model keeps the text of each label; the toolkit's parsing of that text
  into a background colour is outside it.
\<close>

definition refresh_visualisation :: "app \<Rightarrow> run" where
  "refresh_visualisation s =
     (let s1 = s\<lparr>w_colour_palettes_viz := []\<rparr>
      in case highlighted_prompt (w_existing_palettes s1) of
           Inl e \<Rightarrow> (if e = TypeError then (None, s1) else (Some e, s1))
         | Inr highlighted_palette \<Rightarrow>
             (case cached highlighted_palette s1 of
                [] \<Rightarrow> (Some IndexError, s1)
              | p # _ \<Rightarrow> (None, s1\<lparr>w_colour_palettes_viz := pal_colours p\<rparr>)))"

text \<open>The handler of \<^verbatim>\<open>OptionHighlighted\<close> and \<^verbatim>\<open>OptionSelected\<close> on the palette list.\<close>

definition option_highlighted :: "app \<Rightarrow> run" where
  "option_highlighted s = then_do (refresh_palette_colours s) refresh_visualisation"

text \<open>
  What the user does to the widgets: moving the cursor of the palette list to an option
  (which posts \<^verbatim>\<open>OptionHighlighted\<close>), moving the cursor of the colour list, and typing
  into the input.
\<close>

definition highlight_palette :: "nat \<Rightarrow> app \<Rightarrow> run" where
  "highlight_palette i s =
     option_highlighted
       (s\<lparr>w_existing_palettes := (w_existing_palettes s)\<lparr>highlighted := Some i\<rparr>\<rparr>)"

definition highlight_colour :: "nat \<Rightarrow> app \<Rightarrow> app" where
  "highlight_colour j s =
     s\<lparr>w_existing_colours := (w_existing_colours s)\<lparr>highlighted := Some j\<rparr>\<rparr>"

definition type_code :: "string \<Rightarrow> app \<Rightarrow> app" where
  "type_code h s = s\<lparr>w_add_code := h\<rparr>"

section \<open>Adding a colour\<close>

definition add_new_colour :: "string option \<Rightarrow> string \<Rightarrow> app \<Rightarrow> run" where
  "add_new_colour palette_name hex_code s =
     (case open_read s of
        (tree, s1) \<Rightarrow>
          (case find_palette (py_str palette_name) tree of
             Inl e \<Rightarrow> (Some e, s1)
           | Inr None \<Rightarrow> (Some AttributeError, s1)
           | Inr (Some parent_tag) \<Rightarrow>
               (None,
                write_tree
                  (update_at parent_tag
                     (append_child (Element ''color'' [] (Some hex_code) None [])) tree)
                  s1)))"

text \<open>The body of the \<^verbatim>\<open>try\<close> of \<^verbatim>\<open>process_input\<close>.\<close>

definition process_input_try :: "app \<Rightarrow> run" where
  "process_input_try s =
     (case highlighted_prompt (w_existing_palettes s) of
        Inl e \<Rightarrow> (Some e, s)
      | Inr highlighted_colour_palette \<Rightarrow>
          (case cached highlighted_colour_palette s of
             [] \<Rightarrow> (Some IndexError, s)
           | p # _ \<Rightarrow>
               (let palette_colours = pal_colours p;
                    hex_code = w_add_code s;
                    hex_code = (if length hex_code < 7 then ''#'' @ hex_code else hex_code)
                in if HEX_VALIDATION hex_code \<and> Some hex_code \<notin> set palette_colours
                   then then_do (add_new_colour highlighted_colour_palette hex_code s)
                          (\<lambda>s1. then_do
                             (refresh_palette_colours ((reload s1)\<lparr>w_add_code := []\<rparr>))
                             refresh_visualisation)
                   else (None, s))))"

text \<open>\<^verbatim>\<open>except TypeError: pass\<close>.\<close>

definition except_TypeError_pass :: "run \<Rightarrow> run" where
  "except_TypeError_pass r =
     (case r of (Some e, s) \<Rightarrow> (if e = TypeError then (None, s) else (Some e, s))
              | (None, s) \<Rightarrow> (None, s))"

definition process_input :: "app \<Rightarrow> run" where
  "process_input s = except_TypeError_pass (process_input_try s)"

section \<open>Adding a palette\<close>

definition action_add_palette :: "app \<Rightarrow> app" where
  "action_add_palette s = s\<lparr>add_palette_screen := True\<rparr>"

text \<open>
  \<^verbatim>\<open>AddPalette.add_new_palette\<close>, with the value of the name input and of the type
  select. On success the screen is dismissed with the path of the file, and the callback
  given to \<^verbatim>\<open>push_screen\<close>, \<^verbatim>\<open>refresh_palettes\<close>, runs. Otherwise the handler returns and
  the screen stays.
\<close>

definition add_new_palette :: "string \<Rightarrow> string \<Rightarrow> app \<Rightarrow> run" where
  "add_new_palette palette_name select_value s =
     (let existing_palettes_names = map pal_name (existing_palettes s);
          palette_type =
            (if select_value = ''Categorical'' then ''regular''
             else if select_value = ''Sequential'' then ''ordered-sequential''
             else if select_value = ''Diverging'' then ''ordered-diverging''
             else select_value)
      in if Some palette_name \<notin> set existing_palettes_names \<and> palette_name \<noteq> []
         then (case open_read s of
                 (tree, s1) \<Rightarrow>
                   (case find_child ''preferences'' tree of
                      None \<Rightarrow> (Some AttributeError, s1)
                    | Some parent_tag \<Rightarrow>
                        (None,
                         refresh_palettes
                           ((write_tree
                               (update_at [parent_tag]
                                  (append_child
                                     (Element ''color-palette''
                                        [(''name'', palette_name), (''type'', palette_type)]
                                        None None []))
                                  tree)
                               s1)\<lparr>add_palette_screen := False\<rparr>))))
         else (None, s))"

section \<open>Deleting\<close>

text \<open>
  The \<^verbatim>\<open>except TypeError\<close> branch of \<^verbatim>\<open>action_delete\<close>. \<open>k\<close> is the position of
  \<^verbatim>\<open>preferences\<close> under the root, \<open>colour_palette\<close> the reference found below it (relative
  to it) or \<^verbatim>\<open>None\<close>. \<^verbatim>\<open>preferences.remove(colour_palette)\<close> raises \<^verbatim>\<open>TypeError\<close> for
  \<^verbatim>\<open>None\<close> and \<^verbatim>\<open>ValueError\<close> for an element that is not a child of \<^verbatim>\<open>preferences\<close>.
\<close>

definition delete_palette_branch :: "nat \<Rightarrow> nat list option \<Rightarrow> element \<Rightarrow> app \<Rightarrow> run" where
  "delete_palette_branch k colour_palette tree s =
     (case colour_palette of
        None \<Rightarrow> (Some TypeError, s)
      | Some [] \<Rightarrow> (Some ValueError, s)
      | Some [i] \<Rightarrow>
          (let s1 = write_tree (update_at [k] (remove_child i) tree) s;
               s2 = refresh_palettes s1;
               s3 = s2\<lparr>w_existing_colours := clear_options (w_existing_colours s2)\<rparr>
           in refresh_visualisation s3)
      | Some (i # j # p) \<Rightarrow> (Some ValueError, s))"

text \<open>
  The body of the \<^verbatim>\<open>try\<close>. It returns the tree as well, which the \<^verbatim>\<open>except\<close> branch
  goes on with. A reference returned by \<^verbatim>\<open>find\<close> is always valid, so the branch for
  an invalid one is never taken.
\<close>

definition delete_colour_try ::
  "nat \<Rightarrow> nat list option \<Rightarrow> element \<Rightarrow> app \<Rightarrow> exn option \<times> element \<times> app" where
  "delete_colour_try k colour_palette tree s =
     (case highlighted_prompt (w_existing_colours s) of
        Inl e \<Rightarrow> (Some e, tree, s)
      | Inr highlighted_colour \<Rightarrow>
          (case colour_palette of
             None \<Rightarrow> (Some TypeError, tree, s)
           | Some p \<Rightarrow>
               (case get_at tree (k # p) of
                  None \<Rightarrow> (Some ValueError, tree, s)
                | Some pal \<Rightarrow>
                    (case first_index (\<lambda>colour. etext colour = highlighted_colour)
                            (children pal) of
                       None \<Rightarrow> (Some IndexError, tree, s)
                     | Some j \<Rightarrow>
                         (let tree1 = update_at (k # p) (remove_child j) tree;
                              s1 = write_tree tree1 s;
                              s2 = s1\<lparr>w_existing_colours :=
                                        clear_options (w_existing_colours s1)\<rparr>;
                              s3 = reload s2
                          in case then_do (refresh_palette_colours s3) refresh_visualisation of
                               (r, s4) \<Rightarrow> (r, tree1, s4))))))"

definition action_delete :: "app \<Rightarrow> run" where
  "action_delete s =
     (case open_read s of
        (tree, s1) \<Rightarrow>
          (let preferences = find_child ''preferences'' tree
           in case highlighted_prompt (w_existing_palettes s1) of
                Inl e \<Rightarrow> (Some e, s1)
              | Inr highlighted_colour_palette \<Rightarrow>
                  (case preferences of
                     None \<Rightarrow> (Some AttributeError, s1)
                   | Some k \<Rightarrow>
                       (case find_palette (py_str highlighted_colour_palette)
                               (children tree ! k) of
                          Inl e \<Rightarrow> (Some e, s1)
                        | Inr colour_palette \<Rightarrow>
                            (case delete_colour_try k colour_palette tree s1 of
                               (Some e, tree1, s2) \<Rightarrow>
                                 (if e = TypeError
                                  then delete_palette_branch k colour_palette tree1 s2
                                  else (Some e, s2))
                             | (None, tree1, s2) \<Rightarrow> (None, s2))))))"

section \<open>Properties of a session\<close>

text \<open>The cache is the projection of the file as it is now.\<close>

definition in_sync :: "app \<Rightarrow> bool" where
  "in_sync s \<longleftrightarrow> existing_palettes s = palettes_in (parse (preferences_file s))"

text \<open>The number of times the file has been written.\<close>

definition writes :: "app \<Rightarrow> nat" where
  "writes s = length (filter (\<lambda>e. e = FileWrite) (io_log s))"

text \<open>
  One of the three handlers that write the file ran from \<open>s\<close> and returned, without an
  exception, in \<open>s'\<close>.
\<close>

inductive handled :: "app \<Rightarrow> app \<Rightarrow> bool" where
  add_palette: "add_new_palette n v s = (None, s') \<Longrightarrow> handled s s'"
| add_colour: "process_input s = (None, s') \<Longrightarrow> handled s s'"
| delete: "action_delete s = (None, s') \<Longrightarrow> handled s s'"

subsection \<open>An example session\<close>

text \<open>
  The document of the scenario of the specification: a palette Brand with the colour
  \<^verbatim>\<open>#112233\<close> and an empty palette Other, and the application showing it with nothing
  highlighted.
\<close>

definition brand :: element where
  "brand =
     Element ''color-palette'' [(''name'', ''Brand''), (''type'', ''regular'')] None None
       [Element ''color'' [] (Some ''#112233'') None []]"

definition other :: element where
  "other =
     Element ''color-palette'' [(''name'', ''Other''), (''type'', ''regular'')] None None []"

definition example_doc :: element where
  "example_doc =
     Element ''workbook'' [] None None [Element ''preferences'' [] None None [brand, other]]"

definition showing :: "tps_file \<Rightarrow> app" where
  "showing f =
     \<lparr>preferences_file = f,
      existing_palettes = palettes_in (parse f),
      w_existing_palettes =
        \<lparr>options = palette_options (palettes_in (parse f)), highlighted = None\<rparr>,
      w_existing_colours = \<lparr>options = [], highlighted = None\<rparr>,
      w_colour_palettes_viz = [],
      w_add_code = [],
      add_palette_screen = False,
      io_log = []\<rparr>"

definition example_app :: app where
  "example_app = showing \<lparr>declared_encoding = None, skipped = [], getroot = example_doc\<rparr>"

text \<open>Brand highlighted, and \<^verbatim>\<open>aabbcc\<close> typed into the input.\<close>

definition brand_selected :: app where
  "brand_selected = snd (highlight_palette 0 example_app)"


text \<open>
  The file was written by the program and the cache reloaded from it: the cache is its
  projection, its declaration names the encoding \<^verbatim>\<open>utf-8\<close>, and it holds no comment or
  processing instruction.
\<close>

definition rewritten :: "app \<Rightarrow> bool" where
  "rewritten s \<longleftrightarrow>
     in_sync s \<and> declared_encoding (preferences_file s) = Some ''utf-8'' \<and>
     skipped (preferences_file s) = []"

subsection \<open>Writing back what was loaded\<close>




text \<open>
  A handler left the file, the cache and the number of writes as they were.
\<close>

definition untouched :: "app \<Rightarrow> app \<Rightarrow> bool" where
  "untouched s s' \<longleftrightarrow>
     preferences_file s' = preferences_file s \<and> existing_palettes s' = existing_palettes s \<and>
     writes s' = writes s"

text \<open>
  The states of a session on the file \<open>f\<close>: the application starts showing the file, and
  then the user moves the cursors, types, opens the screen for a new palette, or runs a
  handler that returns. A handler that raises ends the session.
\<close>

inductive session :: "tps_file \<Rightarrow> app \<Rightarrow> bool" for f where
  start: "session f (showing f)"
| cursor_palette: "session f s \<Longrightarrow> highlight_palette i s = (None, s') \<Longrightarrow> session f s'"
| cursor_colour: "session f s \<Longrightarrow> session f (highlight_colour j s)"
| typing: "session f s \<Longrightarrow> session f (type_code h s)"
| open_screen: "session f s \<Longrightarrow> session f (action_add_palette s)"
| handler: "session f s \<Longrightarrow> handled s s' \<Longrightarrow> session f s'"

text \<open>
  A state no session reaches by itself: the file holds Brand and Other (another program
  wrote them), the cache is still empty.
\<close>

definition stale_app :: app where
  "stale_app = example_app\<lparr>existing_palettes := []\<rparr>"

text \<open>
  A document whose only palette lies one level below \<^verbatim>\<open>preferences\<close>, inside another
  element, and the application showing it with that palette highlighted.
\<close>

definition deep :: element where
  "deep =
     Element ''color-palette'' [(''name'', ''Deep''), (''type'', ''regular'')] None None
       [Element ''color'' [] (Some ''#445566'') None []]"

definition nested_doc :: element where
  "nested_doc =
     Element ''workbook'' [] None None
       [Element ''preferences'' [] None None [Element ''folder'' [] None None [deep]]]"

definition nested_app :: app where
  "nested_app =
     snd (highlight_palette 0 (showing \<lparr>declared_encoding = None, skipped = [], getroot = nested_doc\<rparr>))"

subsection \<open>The palettes of a list of siblings\<close>


definition palettes_of :: "element list \<Rightarrow> palette list" where
  "palettes_of cs = map palette_of (filter (\<lambda>c. tag c = ''color-palette'') (concat (map iter cs)))"


subsection \<open>Colours\<close>

text \<open>
  What \<^verbatim>\<open>process_input\<close> makes of the text of the input before it validates it, the
  element \<^verbatim>\<open>add_new_colour\<close> appends, and the entry of the cache with one more colour.
\<close>

definition with_marker :: "string \<Rightarrow> string" where
  "with_marker h = (if length h < 7 then ''#'' @ h else h)"



text \<open>
  Following the words of the specification, not the program: the canonical hex form has
  the leading marker and is case-normalised, as in the scenario that turns \<^verbatim>\<open>aabbcc\<close>
  into \<^verbatim>\<open>#AABBCC\<close>.
\<close>

definition upper_hex :: "char \<Rightarrow> char" where
  "upper_hex c =
     (case map_of [(CHR ''a'', CHR ''A''), (CHR ''b'', CHR ''B''), (CHR ''c'', CHR ''C''),
                   (CHR ''d'', CHR ''D''), (CHR ''e'', CHR ''E''), (CHR ''f'', CHR ''F'')] c of
        Some u \<Rightarrow> u
      | None \<Rightarrow> c)"

definition spec_canonical_hex :: "string \<Rightarrow> string" where
  "spec_canonical_hex h =
     ''#'' @ map upper_hex (case h of [] \<Rightarrow> [] | c # r \<Rightarrow> if c = CHR ''#'' then r else h)"

text \<open>
  Brand holding \<^verbatim>\<open>#AABBCC\<close>, highlighted, with \<^verbatim>\<open>aabbcc\<close> typed; and the example
  session with \<^verbatim>\<open>112233\<close> typed, a colour Brand already has.
\<close>

definition shout_doc :: element where
  "shout_doc =
     Element ''workbook'' [] None None
       [Element ''preferences'' [] None None
          [Element ''color-palette'' [(''name'', ''Brand''), (''type'', ''regular'')] None None
             [Element ''color'' [] (Some ''#AABBCC'') None []]]]"

definition shout_typed :: app where
  "shout_typed =
     type_code ''aabbcc''
       (snd (highlight_palette 0 (showing \<lparr>declared_encoding = None, skipped = [], getroot = shout_doc\<rparr>)))"

definition brand_retyped :: app where
  "brand_retyped = type_code ''112233'' brand_selected"

subsection \<open>Positions in a tree\<close>







section \<open>What the steps of a handler leave alone\<close>

lemma reload_simps:
  "preferences_file (reload s) = preferences_file s"
  "existing_palettes (reload s) = palettes_in (parse (preferences_file s))"
  "io_log (reload s) = io_log s @ [FileRead]"
  "w_existing_palettes (reload s) = w_existing_palettes s"
  "w_existing_colours (reload s) = w_existing_colours s"
  "w_colour_palettes_viz (reload s) = w_colour_palettes_viz s"
  "w_add_code (reload s) = w_add_code s"
  "add_palette_screen (reload s) = add_palette_screen s"
  by (simp_all add: reload_def get_existing_palettes_def open_read_def)

lemma refresh_palette_colours_frame:
  assumes "refresh_palette_colours s = (r, s')"
  shows "preferences_file s' = preferences_file s" "existing_palettes s' = existing_palettes s"
    "io_log s' = io_log s" "w_existing_palettes s' = w_existing_palettes s"
    "w_colour_palettes_viz s' = w_colour_palettes_viz s" "w_add_code s' = w_add_code s"
    "add_palette_screen s' = add_palette_screen s"
  using assms
  by (auto simp: refresh_palette_colours_def cached_def split: sum.splits list.splits)

lemma refresh_visualisation_frame:
  assumes "refresh_visualisation s = (r, s')"
  shows "preferences_file s' = preferences_file s" "existing_palettes s' = existing_palettes s"
    "io_log s' = io_log s" "w_existing_palettes s' = w_existing_palettes s"
    "w_existing_colours s' = w_existing_colours s" "w_add_code s' = w_add_code s"
    "add_palette_screen s' = add_palette_screen s"
  using assms
  by (auto simp: refresh_visualisation_def cached_def Let_def split: sum.splits list.splits if_splits)

lemma option_highlighted_frame:
  assumes "then_do (refresh_palette_colours s) refresh_visualisation = (r, s')"
  shows "preferences_file s' = preferences_file s" "existing_palettes s' = existing_palettes s"
    "io_log s' = io_log s" "w_existing_palettes s' = w_existing_palettes s"
    "w_add_code s' = w_add_code s" "add_palette_screen s' = add_palette_screen s"
proof -
  obtain r1 s1 where a: "refresh_palette_colours s = (r1, s1)" by (cases "refresh_palette_colours s")
  note f1 = refresh_palette_colours_frame[OF a]
  show "preferences_file s' = preferences_file s" "existing_palettes s' = existing_palettes s"
    "io_log s' = io_log s" "w_existing_palettes s' = w_existing_palettes s"
    "w_add_code s' = w_add_code s" "add_palette_screen s' = add_palette_screen s"
    using assms a f1
    by (auto simp: then_do_def split: option.splits dest: refresh_visualisation_frame)
qed

lemma refresh_palettes_simps:
  "preferences_file (refresh_palettes s) = preferences_file s"
  "existing_palettes (refresh_palettes s) = palettes_in (parse (preferences_file s))"
  "io_log (refresh_palettes s) = io_log s @ [FileRead]"
  "w_existing_colours (refresh_palettes s) = w_existing_colours s"
  "w_colour_palettes_viz (refresh_palettes s) = w_colour_palettes_viz s"
  "w_add_code (refresh_palettes s) = w_add_code s"
  "add_palette_screen (refresh_palettes s) = add_palette_screen s"
  "w_existing_palettes (refresh_palettes s) =
     \<lparr>options = palette_options (palettes_in (parse (preferences_file s))), highlighted = None\<rparr>"
  by (simp_all add: refresh_palettes_def Let_def reload_simps add_options_def clear_options_def)

lemma write_tree_simps:
  "preferences_file (write_tree t s) = tree_write t ''utf-8'' True"
  "existing_palettes (write_tree t s) = existing_palettes s"
  "io_log (write_tree t s) = io_log s @ [FileWrite]"
  "w_existing_palettes (write_tree t s) = w_existing_palettes s"
  "w_existing_colours (write_tree t s) = w_existing_colours s"
  "w_colour_palettes_viz (write_tree t s) = w_colour_palettes_viz s"
  "w_add_code (write_tree t s) = w_add_code s"
  "add_palette_screen (write_tree t s) = add_palette_screen s"
  by (simp_all add: write_tree_def)

lemma in_sync_cong:
  "preferences_file s' = preferences_file s \<Longrightarrow> existing_palettes s' = existing_palettes s \<Longrightarrow>
   in_sync s \<Longrightarrow> in_sync s'"
  by (simp add: in_sync_def)

lemma in_sync_refresh_palettes: "in_sync (refresh_palettes s)"
  by (simp add: in_sync_def refresh_palettes_simps)

lemma in_sync_reload: "in_sync (reload s)"
  by (simp add: in_sync_def reload_simps)

lemma delete_palette_branch_sync:
  assumes "delete_palette_branch k cp t s = (r, s')"
  shows "s' = s \<or> rewritten s'"
proof (cases cp)
  case None with assms show ?thesis by (simp add: delete_palette_branch_def)
next
  case (Some p)
  show ?thesis
  proof (cases p)
    case Nil with Some assms show ?thesis by (simp add: delete_palette_branch_def)
  next
    case (Cons i q)
    show ?thesis
    proof (cases q)
      case Nil
      define s3 where
        "s3 = (refresh_palettes (write_tree (update_at [k] (remove_child i) t) s))
           \<lparr>w_existing_colours :=
              clear_options
                (w_existing_colours
                   (refresh_palettes (write_tree (update_at [k] (remove_child i) t) s)))\<rparr>"
      have rv: "refresh_visualisation s3 = (r, s')"
        using assms Some Cons Nil by (simp add: delete_palette_branch_def Let_def s3_def)
      have "rewritten s3"
        by (simp add: s3_def rewritten_def in_sync_def refresh_palettes_simps write_tree_simps
            tree_write_def)
      then have "rewritten s'"
        using refresh_visualisation_frame[OF rv] by (simp add: rewritten_def in_sync_def)
      then show ?thesis ..
    next
      case (Cons j q') with Some \<open>p = i # q\<close> assms show ?thesis by (simp add: delete_palette_branch_def)
    qed
  qed
qed

lemma delete_colour_try_sync:
  assumes "delete_colour_try k cp t s = (r, t', s')"
  shows "s' = s \<or> rewritten s'"
proof -
  { fix hc p pal j
    assume a: "highlighted_prompt (w_existing_colours s) = Inr hc" "cp = Some p"
      "get_at t (k # p) = Some pal"
      "first_index (\<lambda>colour. etext colour = hc) (children pal) = Some j"
    define s3 where
      "s3 = reload ((write_tree (update_at (k # p) (remove_child j) t) s)
         \<lparr>w_existing_colours :=
            clear_options
              (w_existing_colours (write_tree (update_at (k # p) (remove_child j) t) s))\<rparr>)"
    obtain r4 s4 where b: "then_do (refresh_palette_colours s3) refresh_visualisation = (r4, s4)"
      by (cases "then_do (refresh_palette_colours s3) refresh_visualisation")
    have "s' = s4"
      using assms a b unfolding delete_colour_try_def s3_def Let_def by simp
    moreover have "rewritten s3"
      by (simp add: s3_def rewritten_def in_sync_def reload_simps write_tree_simps tree_write_def
          del: update_at.simps)
    then have "rewritten s4"
      using option_highlighted_frame[OF b] by (simp add: rewritten_def in_sync_def)
    ultimately have "rewritten s'" by simp }
  then show ?thesis
    using assms unfolding delete_colour_try_def
    by (auto split: sum.splits option.splits)
qed

section \<open>References into a tree\<close>

lemma iter_eq: "iter e = e # descendants e"
  by (cases e) (simp add: descendants_def)

lemma get_at_descendants:
  "get_at t p = Some e \<Longrightarrow> p \<noteq> [] \<Longrightarrow> e \<in> set (descendants t)"
proof (induction p arbitrary: t)
  case Nil
  then show ?case by simp
next
  case (Cons i p)
  from Cons.prems have i: "i < length (children t)" and g: "get_at (children t ! i) p = Some e"
    by (auto split: if_splits)
  have "e \<in> set (iter (children t ! i))"
  proof (cases "p = []")
    case True with g show ?thesis by (simp add: iter_eq)
  next
    case False
    from Cons.IH[OF g False] show ?thesis by (simp add: iter_eq)
  qed
  with i show ?case unfolding descendants_def by (auto intro!: bexI[of _ "children t ! i"])
qed




section \<open>What a handler leaves\<close>

lemma add_new_palette_cases:
  assumes "add_new_palette n v s = (r, s')"
  shows "untouched s s' \<or> rewritten s'"
  using assms
  by (auto simp: add_new_palette_def Let_def open_read_def rewritten_def in_sync_def
        untouched_def writes_def refresh_palettes_simps write_tree_simps tree_write_def
        split: if_splits option.splits)

lemma add_new_colour_cases:
  assumes "add_new_colour n h s = (r, s')"
  shows "r \<noteq> None \<and> untouched s s' \<or>
         r = None \<and> declared_encoding (preferences_file s') = Some ''utf-8'' \<and>
           skipped (preferences_file s') = []"
  using assms
  by (auto simp: add_new_colour_def open_read_def untouched_def writes_def write_tree_simps
      tree_write_def split: sum.splits option.splits)

lemma process_input_cases:
  assumes "process_input s = (r, s')"
  shows "untouched s s' \<or> rewritten s'"
proof -
  obtain r0 where t: "process_input_try s = (r0, s')"
    using assms(1)
    by (auto simp: process_input_def except_TypeError_pass_def
        split: prod.splits option.splits if_splits)
  show ?thesis
  proof (cases "highlighted_prompt (w_existing_palettes s)")
    case (Inl e)
    with t show ?thesis by (simp add: process_input_try_def untouched_def)
  next
    case (Inr hcp)
    show ?thesis
    proof (cases "cached hcp s")
      case Nil
      with Inr t show ?thesis by (simp add: process_input_try_def untouched_def)
    next
      case (Cons p ps)
      define hc where
        "hc = (if length (w_add_code s) < 7 then ''#'' @ w_add_code s else w_add_code s)"
      show ?thesis
      proof (cases "HEX_VALIDATION hc \<and> Some hc \<notin> set (pal_colours p)")
        case False
        with Inr Cons t show ?thesis
          by (auto simp add: process_input_try_def Let_def hc_def untouched_def)
      next
        case True
        obtain r1 s1 where a: "add_new_colour hcp hc s = (r1, s1)"
          by (cases "add_new_colour hcp hc s")
        from True Inr Cons t a
        have t2: "then_do (r1, s1)
                    (\<lambda>s1. then_do (refresh_palette_colours ((reload s1)\<lparr>w_add_code := []\<rparr>))
                            refresh_visualisation) = (r0, s')"
          by (auto simp add: process_input_try_def Let_def hc_def)
        show ?thesis
        proof (cases r1)
          case (Some e)
          with t2 have "s' = s1" by (simp add: then_do_def)
          with a Some add_new_colour_cases[OF a] show ?thesis by simp
        next
          case None
          with t2
          have t3: "then_do (refresh_palette_colours ((reload s1)\<lparr>w_add_code := []\<rparr>))
                      refresh_visualisation = (r0, s')"
            by (simp add: then_do_def)
          note f = option_highlighted_frame[OF t3]
          from None add_new_colour_cases[OF a]
          have "declared_encoding (preferences_file s1) = Some ''utf-8'' \<and>
                skipped (preferences_file s1) = []" by simp
          then show ?thesis by (simp add: rewritten_def in_sync_def f reload_simps)
        qed
      qed
    qed
  qed
qed

lemma action_delete_cases:
  assumes "action_delete s = (r, s')"
  shows "untouched s s' \<or> rewritten s'"
proof -
  define s1 where "s1 = s\<lparr>io_log := io_log s @ [FileRead]\<rparr>"
  have w1: "untouched s s1" by (simp add: s1_def writes_def untouched_def)
  have "s' = s1 \<or> rewritten s'"
    using assms(1) unfolding action_delete_def open_read_def Let_def s1_def[symmetric]
    by (auto split: sum.splits option.splits prod.splits if_splits
        dest: delete_colour_try_sync delete_palette_branch_sync)
  with w1 show ?thesis by auto
qed

lemma handled_cases: "handled s s' \<Longrightarrow> untouched s s' \<or> rewritten s'"
  by (induction rule: handled.induct)
     (auto dest: add_new_palette_cases process_input_cases action_delete_cases)

lemma untouched_in_sync: "untouched s s' \<Longrightarrow> in_sync s \<Longrightarrow> in_sync s'"
  by (simp add: untouched_def in_sync_def)

lemma session_in_sync: "session f s \<Longrightarrow> in_sync s"
proof (induction rule: session.induct)
  case start
  show ?case by (simp add: in_sync_def showing_def)
next
  case (cursor_palette s i s')
  from cursor_palette.hyps(2)
  have t: "then_do
             (refresh_palette_colours
                (s\<lparr>w_existing_palettes := (w_existing_palettes s)\<lparr>highlighted := Some i\<rparr>\<rparr>))
             refresh_visualisation = (None, s')"
    by (simp add: highlight_palette_def option_highlighted_def)
  note f = option_highlighted_frame[OF t]
  show ?case using cursor_palette.IH by (simp add: in_sync_def f)
next
  case (cursor_colour s j)
  then show ?case by (simp add: in_sync_def highlight_colour_def)
next
  case (typing s h)
  then show ?case by (simp add: in_sync_def type_code_def)
next
  case (open_screen s)
  then show ?case by (simp add: in_sync_def action_add_palette_def)
next
  case (handler s s')
  then show ?case using handled_cases untouched_in_sync by (auto simp: rewritten_def)
qed

section \<open>The cache after a mutation\<close>



section \<open>Deleting with nothing highlighted\<close>

text \<open>
  C9, as the program has it. When neither a palette nor a colour is highlighted,
  \<^verbatim>\<open>action_delete\<close> opens and parses the file once and then stops: it writes nothing and
  leaves the file, the cache, the panes, the highlights and the input as they were.
\<close>

theorem delete_nothing_highlighted:
  assumes "highlighted (w_existing_palettes s) = None"
    and "highlighted (w_existing_colours s) = None"
  shows "snd (action_delete s) = s\<lparr>io_log := io_log s @ [FileRead]\<rparr>"
  using assms
  by (simp add: action_delete_def open_read_def Let_def highlighted_prompt_def
      get_option_at_index_def)

theorem delete_nothing_highlighted_witness:
  "highlighted (w_existing_palettes example_app) = None \<and>
   highlighted (w_existing_colours example_app) = None \<and>
   snd (action_delete example_app) = example_app\<lparr>io_log := io_log example_app @ [FileRead]\<rparr>"
proof -
  have a: "highlighted (w_existing_palettes example_app) = None"
    by (simp add: example_app_def showing_def)
  have b: "highlighted (w_existing_colours example_app) = None"
    by (simp add: example_app_def showing_def)
  from a b delete_nothing_highlighted [OF a b] show ?thesis by simp
qed

text \<open>
  C9 as stated fails: with nothing highlighted the handler has read the file, and it ends
  with a \<^verbatim>\<open>TypeError\<close> that nothing catches.
\<close>

theorem delete_nothing_highlighted_counterexample:
  "highlighted (w_existing_palettes example_app) = None \<and>
   highlighted (w_existing_colours example_app) = None \<and>
   fst (action_delete example_app) = Some TypeError \<and>
   io_log (snd (action_delete example_app)) = io_log example_app @ [FileRead]"
  by code_simp

section \<open>Rejected names\<close>

lemma add_new_palette_cached_name:
  assumes "Some n \<in> set (map pal_name (existing_palettes s)) \<or> n = []"
  shows "add_new_palette n v s = (None, s)"
  using assms by (auto simp: add_new_palette_def Let_def)





text \<open>
  C6, as the program has it. The name is checked against the cache, before the file is
  opened. A session keeps its cache equal to the projection of its file, so in every
  state of a session the check rejects exactly the blank name and the names of the
  palettes now in the file, those of all earlier mutations included.
\<close>

theorem name_check_in_session:
  assumes "session f s"
  shows "add_new_palette n v s = (None, s) \<longleftrightarrow>
         n = [] \<or> Some n \<in> set (map pal_name (palettes_in (parse (preferences_file s))))"
proof -
  have c: "existing_palettes s = palettes_in (parse (preferences_file s))"
    using session_in_sync[OF assms] by (simp add: in_sync_def)
  show ?thesis
  proof
    assume a: "add_new_palette n v s = (None, s)"
    show "n = [] \<or> Some n \<in> set (map pal_name (palettes_in (parse (preferences_file s))))"
    proof (rule ccontr)
      assume "\<not> ?thesis"
      then have ok: "Some n \<notin> set (map pal_name (existing_palettes s)) \<and> n \<noteq> []"
        using c by simp
      from a have "io_log (snd (add_new_palette n v s)) = io_log s" by simp
      with ok show False
        by (simp add: add_new_palette_def Let_def open_read_def refresh_palettes_simps
            write_tree_simps split: option.splits)
    qed
  next
    assume "n = [] \<or> Some n \<in> set (map pal_name (palettes_in (parse (preferences_file s))))"
    then show "add_new_palette n v s = (None, s)"
      using c by (intro add_new_palette_cached_name) auto
  qed
qed


theorem name_check_in_session_witness:
  "session \<lparr>declared_encoding = None, skipped = [], getroot = example_doc\<rparr> example_app \<and>
   add_new_palette ''Brand'' ''Categorical'' example_app = (None, example_app) \<and>
   Some ''Brand'' \<in> set (map pal_name (palettes_in (parse (preferences_file example_app))))"
proof -
  have a: "session \<lparr>declared_encoding = None, skipped = [], getroot = example_doc\<rparr> example_app"
    unfolding example_app_def by (rule session.start)
  have b: "Some ''Brand'' \<in> set (map pal_name (palettes_in (parse (preferences_file example_app))))"
    by code_simp
  from a b name_check_in_session [OF a, of "''Brand''" "''Categorical''"] show ?thesis by simp
qed

text \<open>
  C6 as stated fails: the check does not look at the file. With Brand in the file and a
  cache that does not hold it, a second Brand is written.
\<close>

theorem name_check_counterexample:
  "Some ''Brand'' \<in> set (map pal_name (palettes_in (parse (preferences_file stale_app)))) \<and>
   fst (add_new_palette ''Brand'' ''Categorical'' stale_app) = None \<and>
   map pal_name (palettes_in (parse (preferences_file
       (snd (add_new_palette ''Brand'' ''Categorical'' stale_app))))) =
     [Some ''Brand'', Some ''Other'', Some ''Brand'']"
  by code_simp

section \<open>Palettes at any depth\<close>

lemma palette_at_any_depth:
  assumes "get_at t p = Some e" "p \<noteq> []" "tag e = ''color-palette''"
  shows "palette_of e \<in> set (palettes_in t)"
  using get_at_descendants[OF assms(1,2)] assms(3)
  by (simp add: palettes_in_def findall_descendant_def)

lemma delete_palette_branch_direct_child:
  assumes "delete_palette_branch k cp t s = (None, s')"
  shows "\<exists>i. cp = Some [i] \<and> getroot (preferences_file s') = update_at [k] (remove_child i) t"
proof -
  from assms obtain i where cp: "cp = Some [i]"
    by (auto simp: delete_palette_branch_def split: option.splits list.splits)
  define s3 where
    "s3 = (refresh_palettes (write_tree (update_at [k] (remove_child i) t) s))
       \<lparr>w_existing_colours :=
          clear_options
            (w_existing_colours
               (refresh_palettes (write_tree (update_at [k] (remove_child i) t) s)))\<rparr>"
  have rv: "refresh_visualisation s3 = (None, s')"
    using assms cp by (simp add: delete_palette_branch_def Let_def s3_def)
  have "preferences_file s' = preferences_file s3"
    using refresh_visualisation_frame(1)[OF rv] .
  then show ?thesis using cp
    by (simp add: s3_def refresh_palettes_simps write_tree_simps tree_write_def)
qed


text \<open>
  C10. The cache lists every palette element below the root, at any depth. The branch of
  \<^verbatim>\<open>action_delete\<close> that removes a palette returns only when the palette is a child of
  \<^verbatim>\<open>preferences\<close>. In the nested document the palette Deep is no child of
  \<^verbatim>\<open>preferences\<close>, it is in the cache and in the palette list, and deleting it raises
  \<^verbatim>\<open>ValueError\<close> and leaves the file as it was.
\<close>

theorem palettes_listed_at_any_depth:
  "(\<forall>t p e. get_at t p = Some e \<and> p \<noteq> [] \<and> tag e = ''color-palette''
       \<longrightarrow> palette_of e \<in> set (palettes_in t)) \<and>
   (\<forall>k cp t s s'. delete_palette_branch k cp t s = (None, s')
       \<longrightarrow> (\<exists>i. cp = Some [i] \<and>
                 getroot (preferences_file s') = update_at [k] (remove_child i) t)) \<and>
   get_at nested_doc [0, 0, 0] = Some deep \<and>
   find_child ''preferences'' nested_doc = Some 0 \<and>
   deep \<notin> set (children (children nested_doc ! 0)) \<and>
   existing_palettes nested_app = [palette_of deep] \<and>
   map prompt (options (w_existing_palettes nested_app)) = [Some ''Deep'', Some ''Categorical''] \<and>
   highlighted (w_existing_palettes nested_app) = Some 0 \<and>
   fst (action_delete nested_app) = Some ValueError \<and>
   preferences_file (snd (action_delete nested_app)) = preferences_file nested_app"
proof -
  have a: "\<forall>t p e. get_at t p = Some e \<and> p \<noteq> [] \<and> tag e = ''color-palette''
       \<longrightarrow> palette_of e \<in> set (palettes_in t)"
    using palette_at_any_depth by blast
  have b: "\<forall>k cp t s s'. delete_palette_branch k cp t s = (None, s')
       \<longrightarrow> (\<exists>i. cp = Some [i] \<and>
                 getroot (preferences_file s') = update_at [k] (remove_child i) t)"
    using delete_palette_branch_direct_child by blast
  have c: "get_at nested_doc [0, 0, 0] = Some deep"
    by (simp add: nested_doc_def)
  have d: "find_child ''preferences'' nested_doc = Some 0"
    by code_simp
  have e: "deep \<notin> set (children (children nested_doc ! 0))"
    by code_simp
  have f: "existing_palettes nested_app = [palette_of deep]"
    by code_simp
  have g: "map prompt (options (w_existing_palettes nested_app)) =
             [Some ''Deep'', Some ''Categorical'']"
    by code_simp
  have h: "highlighted (w_existing_palettes nested_app) = Some 0"
    by code_simp
  have i: "fst (action_delete nested_app) = Some ValueError"
    by code_simp
  have j: "preferences_file (snd (action_delete nested_app)) = preferences_file nested_app"
    by code_simp
  from a b c d e f g h i j show ?thesis by blast
qed

theorem palettes_listed_at_any_depth_witness:
  "get_at nested_doc [0, 0, 0] = Some deep \<and> [0, 0, 0] \<noteq> ([]::nat list) \<and>
   tag deep = ''color-palette'' \<and> palette_of deep \<in> set (palettes_in nested_doc)"
proof -
  have c: "get_at nested_doc [0, 0, 0] = Some deep"
    by (simp add: nested_doc_def)
  have t: "tag deep = ''color-palette''"
    by (simp add: deep_def)
  from palettes_listed_at_any_depth
  have "get_at nested_doc [0, 0, 0] = Some deep \<and> [0, 0, 0] \<noteq> ([]::nat list) \<and>
        tag deep = ''color-palette'' \<longrightarrow> palette_of deep \<in> set (palettes_in nested_doc)"
    by blast
  with c t show ?thesis by simp
qed

section \<open>Finding a palette and changing it\<close>


lemma palettes_of_Nil [simp]: "palettes_of [] = []"
  by (simp add: palettes_of_def)




























section \<open>The colour that is added\<close>









text \<open>
  C4, as the program has it. When the marked form of the typed text, the letters as
  typed, is among the colours of the highlighted palette in the cache, \<^verbatim>\<open>process_input\<close>
  changes nothing: the file is neither read nor written, and the cache, the panes and the
  input stay as they were.
\<close>

theorem add_present_colour_noop:
  assumes "highlighted_prompt (w_existing_palettes s) = Inr n"
    and "cached n s = p # ps"
    and "Some (with_marker (w_add_code s)) \<in> set (pal_colours p)"
  shows "process_input s = (None, s)"
  using assms
  by (simp add: process_input_def process_input_try_def Let_def with_marker_def
      except_TypeError_pass_def)

theorem add_present_colour_noop_witness:
  "highlighted_prompt (w_existing_palettes brand_retyped) = Inr (Some ''Brand'') \<and>
   cached (Some ''Brand'') brand_retyped = [palette_of brand] \<and>
   Some (with_marker (w_add_code brand_retyped)) \<in> set (pal_colours (palette_of brand)) \<and>
   process_input brand_retyped = (None, brand_retyped)"
proof -
  have a: "highlighted_prompt (w_existing_palettes brand_retyped) = Inr (Some ''Brand'')"
    by code_simp
  have b: "cached (Some ''Brand'') brand_retyped = [palette_of brand]"
    by code_simp
  have c: "Some (with_marker (w_add_code brand_retyped)) \<in> set (pal_colours (palette_of brand))"
    by code_simp
  from a b c add_present_colour_noop [OF a b c] show ?thesis by simp
qed

text \<open>
  C4 as stated fails: the comparison is between strings as they are. Brand holds
  \<^verbatim>\<open>#AABBCC\<close>, the canonical form of the typed \<^verbatim>\<open>aabbcc\<close>, and yet \<^verbatim>\<open>#aabbcc\<close> is
  appended: two entries with one canonical form.
\<close>

theorem add_present_colour_counterexample:
  "w_add_code shout_typed = ''aabbcc'' \<and>
   cached (Some ''Brand'') shout_typed =
     [\<lparr>pal_name = Some ''Brand'', pal_type = Some ''regular'',
       pal_colours = [Some ''#AABBCC'']\<rparr>] \<and>
   spec_canonical_hex ''aabbcc'' = ''#AABBCC'' \<and>
   fst (process_input shout_typed) = None \<and>
   cached (Some ''Brand'') (snd (process_input shout_typed)) =
     [\<lparr>pal_name = Some ''Brand'', pal_type = Some ''regular'',
       pal_colours = [Some ''#AABBCC'', Some ''#aabbcc'']\<rparr>] \<and>
   map spec_canonical_hex [''#AABBCC'', ''#aabbcc''] = [''#AABBCC'', ''#AABBCC'']"
  by code_simp

section \<open>The colour that is deleted\<close>





section \<open>The palette that is deleted\<close>




section \<open>Writing back an unchanged document\<close>




end
